theory Spec2Isabelle
  imports Complex_Main
begin

section \<open>Chebyshev filter approximation of pygsp: the evaluators of \<open>approximations.py\<close>\<close>

text \<open>
  The development embeds the class \<open>Chebyshev\<close> of \<open>pygsp/filters/approximations.py\<close>:
  its constructor, the scalar-domain entry point \<open>_evaluate\<close>, the operator-domain entry
  point \<open>_filter\<close> and the two evaluators \<open>_evaluate_direct\<close> and
  \<open>_evaluate_recursive\<close>. The numpy operations they call are written out on a small
  model of numpy arrays: a shape and the elements in row-major order. The methods are
  given twice: on the values of the arrays, and on arrays as references into a memory,
  where views and in-place updates can be told apart.
\<close>

subsection \<open>Array elements\<close>

text \<open>
  Arithmetic is exact: an element is a real number, or \<open>NonFinite\<close>, which stands for
  what numpy computes as \<open>nan\<close> (and for \<open>inf\<close>, which the code can only produce by
  dividing by \<open>lmax = 0\<close>). Rounding and overflow of float64 are not modelled. For
  \<open>+\<close>, \<open>-\<close>, \<open>*\<close>, \<open>cos\<close> and \<open>arccos\<close> an operand that is not finite gives a result
  that is not finite, as in IEEE arithmetic. What is proved below of a value an evaluator
  returns is therefore proved of the real-number result, and is stated for given small
  numbers or as a property of exact arithmetic only. Which statement raises, which shape
  an array has and which warning is logged depend on no rounding: no branch of the code
  reads a computed value, and the domain check compares the given points.
\<close>

datatype npfloat = Fin real | NonFinite

fun lift2 :: "(real \<Rightarrow> real \<Rightarrow> real) \<Rightarrow> npfloat \<Rightarrow> npfloat \<Rightarrow> npfloat" where
  "lift2 f (Fin a) (Fin b) = Fin (f a b)"
| "lift2 f _ _ = NonFinite"

definition fl_add :: "npfloat \<Rightarrow> npfloat \<Rightarrow> npfloat" where
  "fl_add = lift2 (+)"

definition fl_sub :: "npfloat \<Rightarrow> npfloat \<Rightarrow> npfloat" where
  "fl_sub = lift2 (-)"

definition fl_mul :: "npfloat \<Rightarrow> npfloat \<Rightarrow> npfloat" where
  "fl_mul = lift2 (*)"

fun fl_div :: "npfloat \<Rightarrow> npfloat \<Rightarrow> npfloat" where
  "fl_div (Fin a) (Fin b) = (if b = 0 then NonFinite else Fin (a / b))"
| "fl_div _ _ = NonFinite"

fun fl_cos :: "npfloat \<Rightarrow> npfloat" where
  "fl_cos (Fin a) = Fin (cos a)"
| "fl_cos NonFinite = NonFinite"

text \<open>\<open>np.arccos\<close> is \<open>nan\<close> outside \<open>[-1, 1]\<close>.\<close>

fun fl_arccos :: "npfloat \<Rightarrow> npfloat" where
  "fl_arccos (Fin a) = (if - 1 \<le> a \<and> a \<le> 1 then Fin (arccos a) else NonFinite)"
| "fl_arccos NonFinite = NonFinite"


text \<open>Comparisons with \<open>nan\<close> are false.\<close>

fun fl_less :: "npfloat \<Rightarrow> npfloat \<Rightarrow> bool" where
  "fl_less (Fin a) (Fin b) = (a < b)"
| "fl_less _ _ = False"

text \<open>\<open>np.minimum\<close> and \<open>np.maximum\<close>, which propagate \<open>nan\<close>.\<close>

definition fl_min :: "npfloat \<Rightarrow> npfloat \<Rightarrow> npfloat" where
  "fl_min = lift2 min"

definition fl_max :: "npfloat \<Rightarrow> npfloat \<Rightarrow> npfloat" where
  "fl_max = lift2 max"

subsection \<open>Errors\<close>

text \<open>The Python exceptions the embedded code can raise. \<open>UnboundLocalError\<close> is a
  subclass of \<open>NameError\<close>.\<close>

datatype error = AttributeError | IndexError | ValueError | UnboundLocalError

fun is_NameError :: "error \<Rightarrow> bool" where
  "is_NameError UnboundLocalError = True"
| "is_NameError _ = False"

definition bindE :: "error + 'a \<Rightarrow> ('a \<Rightarrow> error + 'b) \<Rightarrow> error + 'b" where
  "bindE m f = (case m of Inl e \<Rightarrow> Inl e | Inr v \<Rightarrow> f v)"

text \<open>\<open>for k in ks: st = body(k, st)\<close>, stopping at the first exception.\<close>

fun for_loop :: "(nat \<Rightarrow> 'st \<Rightarrow> error + 'st) \<Rightarrow> nat list \<Rightarrow> 'st \<Rightarrow> error + 'st" where
  "for_loop body [] st = Inr st"
| "for_loop body (k # ks) st =
     (case body k st of Inl e \<Rightarrow> Inl e | Inr st' \<Rightarrow> for_loop body ks st')"

subsection \<open>numpy arrays\<close>

record ndarray =
  shape :: "nat list"
  data :: "npfloat list"

definition ndim :: "ndarray \<Rightarrow> nat" where
  "ndim a = length (shape a)"

text \<open>A Python number, or a 0-d array.\<close>

definition scalar :: "real \<Rightarrow> ndarray" where
  "scalar r = \<lparr>shape = [], data = [Fin r]\<rparr>"

text \<open>\<open>np.array(xs)\<close> of a list of numbers.\<close>

definition array1 :: "real list \<Rightarrow> ndarray" where
  "array1 xs = \<lparr>shape = [length xs], data = map Fin xs\<rparr>"

text \<open>A 2-d array with \<open>F\<close> columns, given by its rows.\<close>

definition array2 :: "nat \<Rightarrow> real list list \<Rightarrow> ndarray" where
  "array2 F rows = \<lparr>shape = [length rows, F], data = map Fin (concat rows)\<rparr>"

text \<open>The first \<open>n\<close> consecutive blocks of \<open>k\<close> elements.\<close>

fun chunks :: "nat \<Rightarrow> nat \<Rightarrow> 'a list \<Rightarrow> 'a list list" where
  "chunks 0 k xs = []"
| "chunks (Suc n) k xs = take k xs # chunks n k (drop k xs)"

text \<open>Broadcasting of two shapes, aligned at the last axis; here on the reversed shapes.\<close>

fun bshape_rev :: "nat list \<Rightarrow> nat list \<Rightarrow> nat list option" where
  "bshape_rev [] ns = Some ns"
| "bshape_rev (m # ms) [] = Some (m # ms)"
| "bshape_rev (m # ms) (n # ns) =
     (if m = n \<or> n = 1 then map_option ((#) m) (bshape_rev ms ns)
      else if m = 1 then map_option ((#) n) (bshape_rev ms ns)
      else None)"

definition broadcast_shapes :: "nat list \<Rightarrow> nat list \<Rightarrow> nat list option" where
  "broadcast_shapes ms ns = map_option rev (bshape_rev (rev ms) (rev ns))"

text \<open>The elements of an array of shape \<open>ms\<close> repeated to the shape \<open>ns\<close> of the same
  number of axes: an axis of length 1 is stretched.\<close>

fun expand :: "nat list \<Rightarrow> nat list \<Rightarrow> 'a list \<Rightarrow> 'a list" where
  "expand (m # ms) (n # ns) xs =
     (if m = n then concat (map (expand ms ns) (chunks m (prod_list ms) xs))
      else concat (replicate n (expand ms ns xs)))"
| "expand _ _ xs = xs"

definition broadcast_to :: "nat list \<Rightarrow> ndarray \<Rightarrow> npfloat list" where
  "broadcast_to ns a =
     expand (replicate (length ns - ndim a) 1 @ shape a) ns (data a)"

text \<open>An elementwise binary operation; shapes that do not broadcast raise \<open>ValueError\<close>.\<close>

definition binop :: "(npfloat \<Rightarrow> npfloat \<Rightarrow> npfloat) \<Rightarrow> ndarray \<Rightarrow> ndarray \<Rightarrow> error + ndarray" where
  "binop f a b =
     (case broadcast_shapes (shape a) (shape b) of
        None \<Rightarrow> Inl ValueError
      | Some sh \<Rightarrow>
          Inr \<lparr>shape = sh, data = map2 f (broadcast_to sh a) (broadcast_to sh b)\<rparr>)"

definition multiply :: "ndarray \<Rightarrow> ndarray \<Rightarrow> error + ndarray" where
  "multiply = binop fl_mul"

definition subtract :: "ndarray \<Rightarrow> ndarray \<Rightarrow> error + ndarray" where
  "subtract = binop fl_sub"

definition divide :: "ndarray \<Rightarrow> ndarray \<Rightarrow> error + ndarray" where
  "divide = binop fl_div"

text \<open>\<open>a += b\<close>: the result must have the shape of \<open>a\<close>.\<close>

definition iadd :: "ndarray \<Rightarrow> ndarray \<Rightarrow> error + ndarray" where
  "iadd a b =
     (case broadcast_shapes (shape a) (shape b) of
        None \<Rightarrow> Inl ValueError
      | Some sh \<Rightarrow>
          if sh = shape a
          then Inr \<lparr>shape = sh, data = map2 fl_add (data a) (broadcast_to sh b)\<rparr>
          else Inl ValueError)"

definition map_array :: "(npfloat \<Rightarrow> npfloat) \<Rightarrow> ndarray \<Rightarrow> ndarray" where
  "map_array f a = \<lparr>shape = shape a, data = map f (data a)\<rparr>"

definition np_cos :: "ndarray \<Rightarrow> ndarray" where
  "np_cos = map_array fl_cos"

definition np_arccos :: "ndarray \<Rightarrow> ndarray" where
  "np_arccos = map_array fl_arccos"

definition np_zeros :: "nat list \<Rightarrow> ndarray" where
  "np_zeros sh = \<lparr>shape = sh, data = replicate (prod_list sh) (Fin 0)\<rparr>"

definition ones_like :: "ndarray \<Rightarrow> ndarray" where
  "ones_like a = \<lparr>shape = shape a, data = replicate (prod_list (shape a)) (Fin 1)\<rparr>"

text \<open>\<open>c.reshape(c.shape + (1,) * n)\<close>: the elements stay as they are.\<close>

definition reshape_trailing :: "ndarray \<Rightarrow> nat \<Rightarrow> ndarray" where
  "reshape_trailing c n = \<lparr>shape = shape c @ replicate n 1, data = data c\<rparr>"

text \<open>\<open>a[k]\<close> for \<open>k \<ge> 0\<close>.\<close>

definition getitem :: "ndarray \<Rightarrow> nat \<Rightarrow> error + ndarray" where
  "getitem a k =
     (case shape a of
        [] \<Rightarrow> Inl IndexError
      | n # sh \<Rightarrow>
          if k < n then Inr \<lparr>shape = sh, data = chunks n (prod_list sh) (data a) ! k\<rparr>
          else Inl IndexError)"

text \<open>\<open>a.min()\<close> and \<open>a.max()\<close>; an empty array raises \<open>ValueError\<close>.\<close>

definition np_min :: "ndarray \<Rightarrow> error + npfloat" where
  "np_min a = (case data a of [] \<Rightarrow> Inl ValueError | v # vs \<Rightarrow> Inr (foldl fl_min v vs))"

definition np_max :: "ndarray \<Rightarrow> error + npfloat" where
  "np_max a = (case data a of [] \<Rightarrow> Inl ValueError | v # vs \<Rightarrow> Inr (foldl fl_max v vs))"

text \<open>The sum of the products of two rows.\<close>

definition inner :: "npfloat list \<Rightarrow> npfloat list \<Rightarrow> npfloat" where
  "inner xs ys = foldl fl_add (Fin 0) (map2 fl_mul xs ys)"

text \<open>Column \<open>m\<close> of a matrix with \<open>p\<close> columns and \<open>n\<close> rows, stored row by row.\<close>

definition column :: "nat \<Rightarrow> nat \<Rightarrow> nat \<Rightarrow> 'a list \<Rightarrow> 'a list" where
  "column n p m xs = map (\<lambda>j. xs ! (j * p + m)) [0..<n]"

text \<open>
  \<open>a.dot(b)\<close>: with a scalar it is the elementwise product; with a 1-d \<open>b\<close> the sum over
  the last axis of \<open>a\<close>; otherwise the sum over the last axis of \<open>a\<close> and the last but one
  of \<open>b\<close>. Axes of different lengths raise \<open>ValueError\<close>.
\<close>

definition dot :: "ndarray \<Rightarrow> ndarray \<Rightarrow> error + ndarray" where
  "dot a b =
     (if ndim a = 0 \<or> ndim b = 0 then multiply a b
      else
        let n = last (shape a);
            lead = butlast (shape a);
            rows = chunks (prod_list lead) n (data a)
        in if ndim b = 1 then
             (if n \<noteq> hd (shape b) then Inl ValueError
              else Inr \<lparr>shape = lead, data = map (\<lambda>row. inner row (data b)) rows\<rparr>)
           else
             let p = last (shape b);
                 blead = butlast (butlast (shape b));
                 mats = chunks (prod_list blead) (n * p) (data b)
             in if n \<noteq> last (butlast (shape b)) then Inl ValueError
                else Inr \<lparr>shape = lead @ blead @ [p],
                          data = concat (map (\<lambda>row. concat (map (\<lambda>bm.
                                   map (\<lambda>m. inner row (column n p m bm)) [0..<p]) mats)) rows)\<rparr>)"

subsection \<open>The class \<open>Chebyshev\<close>\<close>

text \<open>The graph gives \<open>G.lmax\<close>. The attribute \<open>_coefficients\<close> exists only once it has
  been assigned; it holds an array, here of type \<open>'arr\<close>: the array's value in this
  section, a reference into memory in the next.\<close>

record graph =
  lmax :: real

record 'arr chebyshev =
  G :: graph
  order :: int
  coefficients :: "'arr option"
  Nf :: nat

text \<open>The argument \<open>filters\<close> of the constructor: an object with the attribute \<open>Nf\<close>, or
  an array.\<close>

datatype filters_arg = FilterObject nat | ArrayLike ndarray

text \<open>\<open>__init__\<close>. \<open>_compute_coefficients\<close> is \<open>pass\<close>; then \<open>filters.Nf\<close> is read, and
  when that raises (the argument is an array) the bare \<open>except\<close> stores the array and
  reads its second dimension, which raises \<open>IndexError\<close> when there is none.\<close>

definition init :: "graph \<Rightarrow> filters_arg \<Rightarrow> int \<Rightarrow> error + ndarray chebyshev" where
  "init g filters ord =
     (case filters of
        FilterObject nf \<Rightarrow> Inr \<lparr>G = g, order = ord, coefficients = None, Nf = nf\<rparr>
      | ArrayLike arr \<Rightarrow>
          (case shape arr of
             _ # f # _ \<Rightarrow> Inr \<lparr>G = g, order = ord, coefficients = Some arr, Nf = f\<rparr>
           | _ \<Rightarrow> Inl IndexError))"

text \<open>Reading \<open>self._coefficients\<close>.\<close>

definition get_coefficients :: "ndarray chebyshev \<Rightarrow> error + ndarray" where
  "get_coefficients self = (case coefficients self of None \<Rightarrow> Inl AttributeError | Some c \<Rightarrow> Inr c)"

text \<open>\<open>_evaluate_direct\<close>. \<open>K, F = c.shape\<close> raises \<open>ValueError\<close> unless \<open>c\<close> is 2-d, and
  \<open>x.shape[0]\<close> raises \<open>IndexError\<close> when \<open>x\<close> is 0-d. The state of the loop is
  \<open>result\<close>.\<close>

definition direct_body :: "ndarray \<Rightarrow> ndarray \<Rightarrow> ndarray \<Rightarrow> nat \<Rightarrow> ndarray \<Rightarrow> error + ndarray" where
  "direct_body c x_arccos s k result =
     bindE (getitem c k) (\<lambda>ck.
     bindE (multiply (scalar (real k)) x_arccos) (\<lambda>kx.
     bindE (dot (np_cos kx) s) (\<lambda>t.
     bindE (multiply ck t) (\<lambda>inc.
     iadd result inc))))"

definition evaluate_direct :: "ndarray chebyshev \<Rightarrow> ndarray \<Rightarrow> ndarray \<Rightarrow> error + ndarray" where
  "evaluate_direct self x s =
     bindE (get_coefficients self) (\<lambda>c0.
       case shape c0 of
         [K, F] \<Rightarrow>
           let c = reshape_trailing c0 (ndim x) in
           (case shape x of
              [] \<Rightarrow> Inl IndexError
            | n # _ \<Rightarrow>
                let result = np_zeros [F, n];
                    x_arccos = np_arccos x
                in for_loop (direct_body c x_arccos s) [0..<K] result)
       | _ \<Rightarrow> Inl ValueError)"

text \<open>\<open>_evaluate_recursive\<close>. The state of the loop is \<open>(x0, x1, result)\<close>.\<close>

definition recursive_body ::
  "ndarray \<Rightarrow> ndarray \<Rightarrow> ndarray \<Rightarrow> nat \<Rightarrow> ndarray \<times> ndarray \<times> ndarray \<Rightarrow>
   error + ndarray \<times> ndarray \<times> ndarray" where
  "recursive_body c x s k st =
     (case st of (x0, x1, result) \<Rightarrow>
     bindE (dot x s) (\<lambda>xs.
     bindE (multiply (scalar 2) xs) (\<lambda>t.
     bindE (multiply t x1) (\<lambda>u.
     bindE (subtract u x0) (\<lambda>x2.
     bindE (getitem c k) (\<lambda>ck.
     bindE (multiply ck x2) (\<lambda>inc.
     bindE (iadd result inc) (\<lambda>result'.
     Inr (x1, x2, result')))))))))"

definition evaluate_recursive :: "ndarray chebyshev \<Rightarrow> ndarray \<Rightarrow> ndarray \<Rightarrow> error + ndarray" where
  "evaluate_recursive self x s =
     bindE (get_coefficients self) (\<lambda>c0.
       case shape c0 of
         [] \<Rightarrow> Inl IndexError
       | K # _ \<Rightarrow>
           let c = reshape_trailing c0 (ndim x);
               x0 = ones_like x
           in
           bindE (getitem c 0) (\<lambda>c_0.
           bindE (dot x0 s) (\<lambda>t.
           bindE (multiply c_0 t) (\<lambda>result.
           bindE (if K > 1
                  then bindE (getitem c 1) (\<lambda>c_1.
                       bindE (multiply c_1 x) (\<lambda>inc. iadd result inc))
                  else Inr result) (\<lambda>result.
           bindE (for_loop (recursive_body c x s) [2..<K] (x0, x, result)) (\<lambda>st.
           case st of (_, _, result) \<Rightarrow> Inr result))))))"

text \<open>The module's logger: the warnings emitted so far. The warning of \<open>_evaluate\<close> carries
  \<open>G.lmax\<close>, which its message prints.\<close>

datatype warning = OutsideDomain real

text \<open>\<open>getattr(self, '_evaluate_' + method)(x)\<close>: the class has the two evaluators
  \<open>_evaluate_direct\<close> and \<open>_evaluate_recursive\<close>; another name raises
  \<open>AttributeError\<close>. The signal is the default \<open>s = 1\<close>.\<close>

definition dispatch :: "ndarray chebyshev \<Rightarrow> string \<Rightarrow> ndarray \<Rightarrow> error + ndarray" where
  "dispatch self method x =
     (if method = ''direct'' then evaluate_direct self x (scalar 1)
      else if method = ''recursive'' then evaluate_recursive self x (scalar 1)
      else Inl AttributeError)"

text \<open>\<open>x.min() < 0 or x.max() > self.G.lmax\<close>.\<close>

definition outside_domain :: "'arr chebyshev \<Rightarrow> ndarray \<Rightarrow> error + bool" where
  "outside_domain self x =
     bindE (np_min x) (\<lambda>lo.
       if fl_less lo (Fin 0) then Inr True
       else bindE (np_max x) (\<lambda>hi. Inr (fl_less (Fin (lmax (G self))) hi)))"

text \<open>\<open>x = 2 * x / self.G.lmax - 1\<close>.\<close>

definition rescale :: "ndarray chebyshev \<Rightarrow> ndarray \<Rightarrow> error + ndarray" where
  "rescale self x =
     bindE (multiply (scalar 2) x) (\<lambda>t.
     bindE (divide t (scalar (lmax (G self)))) (\<lambda>u.
     subtract u (scalar 1)))"

text \<open>\<open>_evaluate\<close>: the log after the call, and the result or the exception.\<close>

definition evaluate ::
  "ndarray chebyshev \<Rightarrow> warning list \<Rightarrow> ndarray \<Rightarrow> string option \<Rightarrow> warning list \<times> (error + ndarray)" where
  "evaluate self logged x method =
     (case outside_domain self x of
        Inl e \<Rightarrow> (logged, Inl e)
      | Inr out \<Rightarrow>
          let logged' = (if out then logged @ [OutsideDomain (lmax (G self))] else logged);
              m = (case method of None \<Rightarrow> ''recursive'' | Some m \<Rightarrow> m)
          in (logged', bindE (rescale self x) (dispatch self m)))"

text \<open>\<open>sparse.identity(M)\<close>, as a dense array.\<close>

definition identity :: "nat \<Rightarrow> ndarray" where
  "identity M =
     \<lparr>shape = [M, M],
      data = concat (map (\<lambda>i. map (\<lambda>j. if i = j then Fin 1 else Fin 0) [0..<M]) [0..<M])\<rparr>"

text \<open>Line 71 of \<open>_filter\<close>: \<open>2 * L - self.G.lmax / 2 - I\<close>.\<close>

definition filter_rescale :: "ndarray chebyshev \<Rightarrow> ndarray \<Rightarrow> ndarray \<Rightarrow> error + ndarray" where
  "filter_rescale self L I =
     bindE (multiply (scalar 2) L) (\<lambda>t.
     bindE (subtract t (scalar (lmax (G self) / 2))) (\<lambda>u.
     subtract u I))"

text \<open>
  \<open>_filter\<close>. \<open>L\<close> is a local variable of the method, since line 71 assigns it; the body
  is written as a function of the binding \<open>L\<close> has when line 69 reads it. Reading an
  unbound local raises \<open>UnboundLocalError\<close>. \<open>M, M = L.shape\<close> raises \<open>ValueError\<close>
  unless \<open>L\<close> is 2-d, and leaves the second length in \<open>M\<close>.
\<close>

definition filter_body ::
  "ndarray option \<Rightarrow> ndarray chebyshev \<Rightarrow> ndarray \<Rightarrow> string option \<Rightarrow> error + ndarray" where
  "filter_body L self s method =
     (case L of
        None \<Rightarrow> Inl UnboundLocalError
      | Some L0 \<Rightarrow>
          (case shape L0 of
             [M', M] \<Rightarrow>
               bindE (filter_rescale self L0 (identity M)) (\<lambda>L'.
               evaluate_direct self L' s)
           | _ \<Rightarrow> Inl ValueError))"

text \<open>On entry no local variable but the parameters is bound.\<close>

definition filter_entry :: "ndarray chebyshev \<Rightarrow> ndarray \<Rightarrow> string option \<Rightarrow> 'a \<Rightarrow> error + ndarray" where
  "filter_entry self s method u = filter_body None self s method"

subsection \<open>Arrays in memory: which statement writes where\<close>

text \<open>
  A numpy array is an object. \<open>c.reshape(...)\<close> and \<open>c[k]\<close> return views, which share
  the memory of \<open>c\<close>; an arithmetic operation, \<open>dot\<close>, \<open>np.cos\<close>, \<open>np.arccos\<close>,
  \<open>np.zeros\<close> and \<open>np.ones_like\<close> return a new array; \<open>a += b\<close> writes into the memory
  of \<open>a\<close>. The methods are written out a second time at this level, statement by
  statement as above, to say which memory they write to. Memory is a list of buffers, an
  address is a position in it, and an array is a reference to a part of a buffer.
\<close>

type_synonym memory = "npfloat list list"

record array_ref =
  base :: nat
  offset :: nat
  view_shape :: "nat list"

definition buffer :: "memory \<Rightarrow> nat \<Rightarrow> npfloat list" where
  "buffer mem a = (if a < length mem then mem ! a else [])"

text \<open>The value an array has in a memory.\<close>

definition deref :: "memory \<Rightarrow> array_ref \<Rightarrow> ndarray" where
  "deref mem r =
     \<lparr>shape = view_shape r,
      data = take (prod_list (view_shape r)) (drop (offset r) (buffer mem (base r)))\<rparr>"

text \<open>An operand is a Python number, as the default \<open>s = 1\<close> is, or an array.\<close>

datatype operand = Num real | Arr array_ref

fun operand_value :: "memory \<Rightarrow> operand \<Rightarrow> ndarray" where
  "operand_value mem (Num a) = scalar a"
| "operand_value mem (Arr r) = deref mem r"

text \<open>What a call can read and change: the object's attributes, the memory and the log.\<close>

record world =
  this :: "array_ref chebyshev"
  memory :: memory
  logged :: "warning list"

type_synonym 'a action = "world \<Rightarrow> (error + 'a) \<times> world"

definition returnM :: "'a \<Rightarrow> 'a action" where
  "returnM v w = (Inr v, w)"

definition raiseM :: "error \<Rightarrow> 'a action" where
  "raiseM e w = (Inl e, w)"

definition bindM :: "'a action \<Rightarrow> ('a \<Rightarrow> 'b action) \<Rightarrow> 'b action" where
  "bindM m f w = (case m w of (Inl e, w') \<Rightarrow> (Inl e, w') | (Inr v, w') \<Rightarrow> f v w')"

text \<open>A computation that reads the object and the memory and changes nothing.\<close>

definition readM :: "(world \<Rightarrow> error + 'a) \<Rightarrow> 'a action" where
  "readM f w = (f w, w)"

text \<open>Reading \<open>self.G.lmax\<close>.\<close>

definition get_lmax :: "real action" where
  "get_lmax = readM (\<lambda>w. Inr (lmax (G (this w))))"

text \<open>An operation that returns a new array: its value goes to a new buffer.\<close>

definition fresh :: "(memory \<Rightarrow> error + ndarray) \<Rightarrow> array_ref action" where
  "fresh f w =
     (case f (memory w) of
        Inl e \<Rightarrow> (Inl e, w)
      | Inr a \<Rightarrow>
          (Inr \<lparr>base = length (memory w), offset = 0, view_shape = shape a\<rparr>,
           w\<lparr>memory := memory w @ [data a]\<rparr>))"

definition fresh2 ::
  "(ndarray \<Rightarrow> ndarray \<Rightarrow> error + ndarray) \<Rightarrow> operand \<Rightarrow> operand \<Rightarrow> array_ref action" where
  "fresh2 f a b = fresh (\<lambda>mem. f (operand_value mem a) (operand_value mem b))"

definition fresh1 :: "(ndarray \<Rightarrow> ndarray) \<Rightarrow> array_ref \<Rightarrow> array_ref action" where
  "fresh1 f a = fresh (\<lambda>mem. Inr (f (deref mem a)))"

text \<open>The two views.\<close>

definition reshape_trailing_ref :: "array_ref \<Rightarrow> nat \<Rightarrow> array_ref" where
  "reshape_trailing_ref c n = c\<lparr>view_shape := view_shape c @ replicate n 1\<rparr>"

definition getitem_ref :: "array_ref \<Rightarrow> nat \<Rightarrow> array_ref action" where
  "getitem_ref a k =
     (case view_shape a of
        [] \<Rightarrow> raiseM IndexError
      | n # sh \<Rightarrow>
          if k < n
          then returnM (a\<lparr>offset := offset a + k * prod_list sh, view_shape := sh\<rparr>)
          else raiseM IndexError)"

text \<open>\<open>a += b\<close> writes the sum over the elements of \<open>a\<close>, in the buffer of \<open>a\<close>.\<close>

definition store :: "memory \<Rightarrow> array_ref \<Rightarrow> npfloat list \<Rightarrow> memory" where
  "store mem r vs =
     (if base r < length mem
      then mem[base r := take (offset r) (mem ! base r) @ vs
                         @ drop (offset r + length vs) (mem ! base r)]
      else mem)"

definition iadd_ref :: "array_ref \<Rightarrow> array_ref \<Rightarrow> array_ref action" where
  "iadd_ref a b w =
     (case iadd (deref (memory w) a) (deref (memory w) b) of
        Inl e \<Rightarrow> (Inl e, w)
      | Inr v \<Rightarrow> (Inr a, w\<lparr>memory := store (memory w) a (data v)\<rparr>))"

fun for_loopM :: "(nat \<Rightarrow> 'st \<Rightarrow> 'st action) \<Rightarrow> nat list \<Rightarrow> 'st \<Rightarrow> 'st action" where
  "for_loopM body [] st = returnM st"
| "for_loopM body (k # ks) st = bindM (body k st) (for_loopM body ks)"

text \<open>Reading \<open>self._coefficients\<close>.\<close>

definition get_coefficients_ref :: "array_ref action" where
  "get_coefficients_ref w =
     (case coefficients (this w) of None \<Rightarrow> (Inl AttributeError, w) | Some c \<Rightarrow> (Inr c, w))"

text \<open>\<open>_evaluate_direct\<close>.\<close>

definition direct_body_ref ::
  "array_ref \<Rightarrow> array_ref \<Rightarrow> operand \<Rightarrow> nat \<Rightarrow> array_ref \<Rightarrow> array_ref action" where
  "direct_body_ref c x_arccos s k result =
     bindM (getitem_ref c k) (\<lambda>ck.
     bindM (fresh2 multiply (Num (real k)) (Arr x_arccos)) (\<lambda>kx.
     bindM (fresh1 np_cos kx) (\<lambda>cs.
     bindM (fresh2 dot (Arr cs) s) (\<lambda>t.
     bindM (fresh2 multiply (Arr ck) (Arr t)) (\<lambda>inc.
     iadd_ref result inc)))))"

definition evaluate_direct_ref :: "array_ref \<Rightarrow> operand \<Rightarrow> array_ref action" where
  "evaluate_direct_ref x s =
     bindM get_coefficients_ref (\<lambda>c0.
       case view_shape c0 of
         [K, F] \<Rightarrow>
           let c = reshape_trailing_ref c0 (length (view_shape x)) in
           (case view_shape x of
              [] \<Rightarrow> raiseM IndexError
            | n # _ \<Rightarrow>
                bindM (fresh (\<lambda>mem. Inr (np_zeros [F, n]))) (\<lambda>result.
                bindM (fresh1 np_arccos x) (\<lambda>x_arccos.
                for_loopM (direct_body_ref c x_arccos s) [0..<K] result)))
       | _ \<Rightarrow> raiseM ValueError)"

text \<open>\<open>_evaluate_recursive\<close>. \<open>x1 = x\<close> binds the name \<open>x1\<close> to the array \<open>x\<close>.\<close>

definition recursive_body_ref ::
  "array_ref \<Rightarrow> array_ref \<Rightarrow> operand \<Rightarrow> nat \<Rightarrow> array_ref \<times> array_ref \<times> array_ref \<Rightarrow>
   (array_ref \<times> array_ref \<times> array_ref) action" where
  "recursive_body_ref c x s k st =
     (case st of (x0, x1, result) \<Rightarrow>
     bindM (fresh2 dot (Arr x) s) (\<lambda>xs.
     bindM (fresh2 multiply (Num 2) (Arr xs)) (\<lambda>t.
     bindM (fresh2 multiply (Arr t) (Arr x1)) (\<lambda>u.
     bindM (fresh2 subtract (Arr u) (Arr x0)) (\<lambda>x2.
     bindM (getitem_ref c k) (\<lambda>ck.
     bindM (fresh2 multiply (Arr ck) (Arr x2)) (\<lambda>inc.
     bindM (iadd_ref result inc) (\<lambda>result'.
     returnM (x1, x2, result')))))))))"

definition evaluate_recursive_ref :: "array_ref \<Rightarrow> operand \<Rightarrow> array_ref action" where
  "evaluate_recursive_ref x s =
     bindM get_coefficients_ref (\<lambda>c0.
       case view_shape c0 of
         [] \<Rightarrow> raiseM IndexError
       | K # _ \<Rightarrow>
           let c = reshape_trailing_ref c0 (length (view_shape x)) in
           bindM (fresh1 ones_like x) (\<lambda>x0.
           bindM (getitem_ref c 0) (\<lambda>c_0.
           bindM (fresh2 dot (Arr x0) s) (\<lambda>t.
           bindM (fresh2 multiply (Arr c_0) (Arr t)) (\<lambda>result.
           bindM (if K > 1
                  then bindM (getitem_ref c 1) (\<lambda>c_1.
                       bindM (fresh2 multiply (Arr c_1) (Arr x)) (\<lambda>inc.
                       iadd_ref result inc))
                  else returnM result) (\<lambda>result.
           bindM (for_loopM (recursive_body_ref c x s) [2..<K] (x0, x, result)) (\<lambda>st.
           case st of (_, _, result) \<Rightarrow> returnM result)))))))"

text \<open>\<open>_evaluate\<close>.\<close>

definition warn :: "warning \<Rightarrow> unit action" where
  "warn m w = (Inr (), w\<lparr>logged := logged w @ [m]\<rparr>)"

definition dispatch_ref :: "string \<Rightarrow> array_ref \<Rightarrow> array_ref action" where
  "dispatch_ref method x =
     (if method = ''direct'' then evaluate_direct_ref x (Num 1)
      else if method = ''recursive'' then evaluate_recursive_ref x (Num 1)
      else raiseM AttributeError)"

definition evaluate_ref :: "array_ref \<Rightarrow> string option \<Rightarrow> array_ref action" where
  "evaluate_ref x method =
     bindM (readM (\<lambda>w. outside_domain (this w) (deref (memory w) x))) (\<lambda>out.
     bindM (if out then bindM get_lmax (\<lambda>l. warn (OutsideDomain l)) else returnM ()) (\<lambda>_.
     bindM (fresh2 multiply (Num 2) (Arr x)) (\<lambda>t.
     bindM get_lmax (\<lambda>l.
     bindM (fresh2 divide (Arr t) (Num l)) (\<lambda>u.
     bindM (fresh2 subtract (Arr u) (Num 1)) (\<lambda>x'.
     dispatch_ref (case method of None \<Rightarrow> ''recursive'' | Some m \<Rightarrow> m) x'))))))"

text \<open>\<open>_filter\<close>, with the binding of its local \<open>L\<close> as above.\<close>

definition filter_body_ref :: "array_ref option \<Rightarrow> operand \<Rightarrow> string option \<Rightarrow> array_ref action" where
  "filter_body_ref L s method =
     (case L of
        None \<Rightarrow> raiseM UnboundLocalError
      | Some L0 \<Rightarrow>
          (case view_shape L0 of
             [M', M] \<Rightarrow>
               bindM (fresh (\<lambda>mem. Inr (identity M))) (\<lambda>I.
               bindM (fresh2 multiply (Num 2) (Arr L0)) (\<lambda>t.
               bindM get_lmax (\<lambda>l.
               bindM (fresh2 subtract (Arr t) (Num (l / 2))) (\<lambda>u.
               bindM (fresh2 subtract (Arr u) (Arr I)) (\<lambda>L'.
               evaluate_direct_ref L' s)))))
           | _ \<Rightarrow> raiseM ValueError))"

definition filter_ref :: "operand \<Rightarrow> string option \<Rightarrow> array_ref action" where
  "filter_ref s method = filter_body_ref None s method"

text \<open>A caller's calls on the object, one after the other. The caller drops the result
  and goes on after an exception.\<close>

datatype call = Evaluate array_ref "string option" | Filter operand "string option"

fun perform :: "call \<Rightarrow> world \<Rightarrow> world" where
  "perform (Evaluate x method) w = snd (evaluate_ref x method w)"
| "perform (Filter s method) w = snd (filter_ref s method w)"

fun perform_all :: "call list \<Rightarrow> world \<Rightarrow> world" where
  "perform_all [] w = w"
| "perform_all (c # cs) w = perform_all cs (perform c w)"

section \<open>The evaluators at scalar points\<close>










section \<open>What an action leaves as it was\<close>

text \<open>\<open>keeps n Q m\<close>: run in a memory with at least \<open>n\<close> buffers, the action \<open>m\<close> changes
  neither the object's attributes nor a buffer below address \<open>n\<close>, and what it returns
  satisfies \<open>Q\<close>. An array is new when its buffer lies at address \<open>n\<close> or above.\<close>

definition keeps :: "nat \<Rightarrow> ('a \<Rightarrow> bool) \<Rightarrow> 'a action \<Rightarrow> bool" where
  "keeps n Q m \<longleftrightarrow>
     (\<forall>w. n \<le> length (memory w) \<longrightarrow>
        (case m w of (r, w') \<Rightarrow>
           this w' = this w \<and> n \<le> length (memory w') \<and> take n (memory w') = take n (memory w)
           \<and> (case r of Inl e \<Rightarrow> True | Inr v \<Rightarrow> Q v)))"

definition is_new :: "nat \<Rightarrow> array_ref \<Rightarrow> bool" where
  "is_new n r \<longleftrightarrow> n \<le> base r"

section \<open>Lemmas\<close>

subsection \<open>Sequencing and blocks of a list\<close>










subsection \<open>Broadcasting a column against a row of points\<close>


















subsection \<open>numpy operations on tabulated functions\<close>












subsection \<open>The loops of the two evaluators\<close>









subsection \<open>Values at a point\<close>








subsection \<open>The domain check and the rescaling\<close>







subsection \<open>Frame rules for the actions\<close>

lemma keepsI:
  assumes "\<And>w r w'. n \<le> length (memory w) \<Longrightarrow> m w = (r, w') \<Longrightarrow>
     this w' = this w \<and> n \<le> length (memory w') \<and> take n (memory w') = take n (memory w)
           \<and> (case r of Inl e \<Rightarrow> True | Inr v \<Rightarrow> Q v)"
  shows "keeps n Q m"
  unfolding keeps_def
proof (intro allI impI)
  fix w :: world
  assume n: "n \<le> length (memory w)"
  obtain r w' where m: "m w = (r, w')" by (cases "m w")
  from assms [OF n m] show "case m w of (r, w') \<Rightarrow>
           this w' = this w \<and> n \<le> length (memory w') \<and> take n (memory w') = take n (memory w)
           \<and> (case r of Inl e \<Rightarrow> True | Inr v \<Rightarrow> Q v)"
    by (simp only: m prod.case)
qed

lemma keepsD:
  assumes "keeps n Q m" "n \<le> length (memory w)" "m w = (r, w')"
  shows "this w' = this w" "n \<le> length (memory w')" "take n (memory w') = take n (memory w)"
    "\<And>v. r = Inr v \<Longrightarrow> Q v"
proof -
  from assms(1) have "\<forall>w. n \<le> length (memory w) \<longrightarrow>
        (case m w of (r, w') \<Rightarrow>
           this w' = this w \<and> n \<le> length (memory w') \<and> take n (memory w') = take n (memory w)
           \<and> (case r of Inl e \<Rightarrow> True | Inr v \<Rightarrow> Q v))"
    by (simp only: keeps_def)
  then have "n \<le> length (memory w) \<longrightarrow>
        (case m w of (r, w') \<Rightarrow>
           this w' = this w \<and> n \<le> length (memory w') \<and> take n (memory w') = take n (memory w)
           \<and> (case r of Inl e \<Rightarrow> True | Inr v \<Rightarrow> Q v))"
    by (rule spec)
  from this assms(2) have "case m w of (r, w') \<Rightarrow>
           this w' = this w \<and> n \<le> length (memory w') \<and> take n (memory w') = take n (memory w)
           \<and> (case r of Inl e \<Rightarrow> True | Inr v \<Rightarrow> Q v)"
    by (rule mp)
  then have a: "this w' = this w \<and> n \<le> length (memory w') \<and> take n (memory w') = take n (memory w)
           \<and> (case r of Inl e \<Rightarrow> True | Inr v \<Rightarrow> Q v)"
    by (simp only: assms(3) prod.case)
  from a show "this w' = this w" by (elim conjE)
  from a show "n \<le> length (memory w')" by (elim conjE)
  from a show "take n (memory w') = take n (memory w)" by (elim conjE)
  from a have q: "case r of Inl e \<Rightarrow> True | Inr v \<Rightarrow> Q v" by (elim conjE)
  show "Q v" if "r = Inr v" for v
    using q by (simp only: that sum.case)
qed

lemma keeps_return: "Q v \<Longrightarrow> keeps n Q (returnM v)"
  by (rule keepsI) (auto simp: returnM_def)

lemma keeps_raise: "keeps n Q (raiseM e)"
  by (rule keepsI) (auto simp: raiseM_def)

lemma keeps_read: "(\<And>v. Q v) \<Longrightarrow> keeps n Q (readM f)"
  by (rule keepsI) (auto simp: readM_def split: sum.splits)

lemma keeps_get_lmax: "keeps n (\<lambda>l. True) get_lmax"
  unfolding get_lmax_def by (rule keeps_read) simp

lemma keeps_warn: "keeps n (\<lambda>u. True) (warn m)"
  by (rule keepsI) (auto simp: warn_def)

lemma keeps_bind:
  assumes "keeps n Q m" "\<And>v. Q v \<Longrightarrow> keeps n R (f v)"
  shows "keeps n R (bindM m f)"
proof (rule keepsI)
  fix w w' :: world and r
  assume n: "n \<le> length (memory w)" and run: "bindM m f w = (r, w')"
  obtain r1 w1 where m: "m w = (r1, w1)" by (cases "m w")
  note k1 = keepsD [OF assms(1) n m]
  show "this w' = this w \<and> n \<le> length (memory w') \<and> take n (memory w') = take n (memory w)
           \<and> (case r of Inl e \<Rightarrow> True | Inr v \<Rightarrow> R v)"
  proof (cases r1)
    case (Inl e)
    with run m have "r = Inl e" "w' = w1" by (simp_all add: bindM_def)
    with k1(1-3) show ?thesis by simp
  next
    case (Inr v)
    with run m have f: "f v w1 = (r, w')" by (simp add: bindM_def)
    from k1(4) [OF Inr] have "keeps n R (f v)" by (rule assms(2))
    note k2 = keepsD [OF this k1(2) f]
    have "case r of Inl e \<Rightarrow> True | Inr v \<Rightarrow> R v"
      using k2(4) by (cases r) simp_all
    with k1(1-3) k2(1-3) show ?thesis by simp
  qed
qed

lemma keeps_fresh: "keeps n (is_new n) (fresh f)"
proof (rule keepsI)
  fix w w' :: world and r
  assume n: "n \<le> length (memory w)" and run: "fresh f w = (r, w')"
  show "this w' = this w \<and> n \<le> length (memory w') \<and> take n (memory w') = take n (memory w)
           \<and> (case r of Inl e \<Rightarrow> True | Inr v \<Rightarrow> is_new n v)"
  proof (cases "f (memory w)")
    case (Inl e)
    with run have "r = Inl e" "w' = w" by (simp_all add: fresh_def)
    with n show ?thesis by simp
  next
    case (Inr a)
    with run have "r = Inr \<lparr>base = length (memory w), offset = 0, view_shape = shape a\<rparr>"
      and "w' = w\<lparr>memory := memory w @ [data a]\<rparr>" by (simp_all add: fresh_def)
    with n show ?thesis by (simp add: is_new_def)
  qed
qed

lemma keeps_fresh1: "keeps n (is_new n) (fresh1 f a)"
  unfolding fresh1_def by (rule keeps_fresh)

lemma keeps_fresh2: "keeps n (is_new n) (fresh2 f a b)"
  unfolding fresh2_def by (rule keeps_fresh)

lemma keeps_getitem: "keeps n (\<lambda>r. base r = base a) (getitem_ref a k)"
proof (cases "view_shape a")
  case Nil
  then show ?thesis by (simp add: getitem_ref_def keeps_raise)
next
  case (Cons m sh)
  then show ?thesis by (simp add: getitem_ref_def keeps_raise keeps_return)
qed

lemma take_store: "n \<le> base r \<Longrightarrow> take n (store mem r vs) = take n mem"
  by (simp add: store_def)

lemma length_store: "length (store mem r vs) = length mem"
  by (simp add: store_def)

lemma keeps_iadd:
  assumes "is_new n a"
  shows "keeps n (is_new n) (iadd_ref a b)"
proof (rule keepsI)
  fix w w' :: world and r
  assume n: "n \<le> length (memory w)" and run: "iadd_ref a b w = (r, w')"
  from assms have na: "n \<le> base a" by (simp add: is_new_def)
  show "this w' = this w \<and> n \<le> length (memory w') \<and> take n (memory w') = take n (memory w)
           \<and> (case r of Inl e \<Rightarrow> True | Inr v \<Rightarrow> is_new n v)"
  proof (cases "iadd (deref (memory w) a) (deref (memory w) b)")
    case (Inl e)
    with run have "r = Inl e" "w' = w" by (simp_all add: iadd_ref_def)
    with n show ?thesis by simp
  next
    case (Inr v)
    with run have "r = Inr a" and "w' = w\<lparr>memory := store (memory w) a (data v)\<rparr>"
      by (simp_all add: iadd_ref_def)
    with n assms show ?thesis by (simp add: take_store [OF na] length_store)
  qed
qed

lemma keeps_for_loop:
  assumes "\<And>k st. I st \<Longrightarrow> keeps n I (body k st)" "I st"
  shows "keeps n I (for_loopM body ks st)"
  using assms(2)
proof (induction ks arbitrary: st)
  case Nil
  then show ?case by (simp add: keeps_return)
next
  case (Cons k ks)
  have "keeps n I (bindM (body k st) (for_loopM body ks))"
    by (rule keeps_bind [OF assms(1) [OF Cons.prems]]) (rule Cons.IH)
  then show ?case by simp
qed

lemma keeps_get_coefficients: "keeps n (\<lambda>c. True) get_coefficients_ref"
  by (rule keepsI) (auto simp: get_coefficients_ref_def split: option.splits)

lemma keeps_direct_body:
  assumes "is_new n result"
  shows "keeps n (is_new n) (direct_body_ref c x_arccos s k result)"
  unfolding direct_body_ref_def
  apply (rule keeps_bind [OF keeps_getitem])
  apply (rule keeps_bind [OF keeps_fresh2])
  apply (rule keeps_bind [OF keeps_fresh1])
  apply (rule keeps_bind [OF keeps_fresh2])
  apply (rule keeps_bind [OF keeps_fresh2])
  apply (rule keeps_iadd [OF assms])
  done

lemma keeps_direct_loop:
  assumes "is_new n result"
  shows "keeps n (is_new n) (for_loopM (direct_body_ref c x_arccos s) ks result)"
  by (rule keeps_for_loop [OF keeps_direct_body assms])

lemma keeps_evaluate_direct: "keeps n (is_new n) (evaluate_direct_ref x s)"
  unfolding evaluate_direct_ref_def
proof (rule keeps_bind [OF keeps_get_coefficients])
  fix c0
  show "keeps n (is_new n)
     (case view_shape c0 of
        [K, F] \<Rightarrow>
          let c = reshape_trailing_ref c0 (length (view_shape x)) in
          (case view_shape x of
             [] \<Rightarrow> raiseM IndexError
           | m # _ \<Rightarrow>
               bindM (fresh (\<lambda>mem. Inr (np_zeros [F, m]))) (\<lambda>result.
               bindM (fresh1 np_arccos x) (\<lambda>x_arccos.
               for_loopM (direct_body_ref c x_arccos s) [0..<K] result)))
      | _ \<Rightarrow> raiseM ValueError)"
  proof (cases "\<exists>K F. view_shape c0 = [K, F]")
    case False
    then have "(case view_shape c0 of
        [K, F] \<Rightarrow>
          let c = reshape_trailing_ref c0 (length (view_shape x)) in
          (case view_shape x of
             [] \<Rightarrow> raiseM IndexError
           | m # _ \<Rightarrow>
               bindM (fresh (\<lambda>mem. Inr (np_zeros [F, m]))) (\<lambda>result.
               bindM (fresh1 np_arccos x) (\<lambda>x_arccos.
               for_loopM (direct_body_ref c x_arccos s) [0..<K] result)))
      | _ \<Rightarrow> raiseM ValueError) = (raiseM ValueError :: array_ref action)"
      by (auto split: list.splits)
    then show ?thesis by (simp only: keeps_raise)
  next
    case True
    then obtain K F where sh: "view_shape c0 = [K, F]" by blast
    show ?thesis
    proof (cases "view_shape x")
      case Nil
      with sh show ?thesis by (simp add: keeps_raise)
    next
      case (Cons m ms)
      have "keeps n (is_new n)
         (bindM (fresh (\<lambda>mem. Inr (np_zeros [F, m]))) (\<lambda>result.
          bindM (fresh1 np_arccos x) (\<lambda>x_arccos.
          for_loopM (direct_body_ref (reshape_trailing_ref c0 (length (view_shape x))) x_arccos s)
            [0..<K] result)))"
        apply (rule keeps_bind [OF keeps_fresh])
        apply (rule keeps_bind [OF keeps_fresh1])
        apply (erule keeps_direct_loop)
        done
      with sh Cons show ?thesis by simp
    qed
  qed
qed

lemma keeps_recursive_body:
  assumes "is_new n (snd (snd st))"
  shows "keeps n (\<lambda>st. is_new n (snd (snd st))) (recursive_body_ref c x s k st)"
proof -
  obtain x0 x1 result where st: "st = (x0, x1, result)" by (cases st)
  with assms have r: "is_new n result" by simp
  show ?thesis
    unfolding recursive_body_ref_def st prod.case
    apply (rule keeps_bind [OF keeps_fresh2])
    apply (rule keeps_bind [OF keeps_fresh2])
    apply (rule keeps_bind [OF keeps_fresh2])
    apply (rule keeps_bind [OF keeps_fresh2])
    apply (rule keeps_bind [OF keeps_getitem])
    apply (rule keeps_bind [OF keeps_fresh2])
    apply (rule keeps_bind [OF keeps_iadd [OF r]])
    apply (rule keeps_return)
    apply simp
    done
qed

lemma keeps_recursive_loop:
  assumes "is_new n result"
  shows "keeps n (\<lambda>st. is_new n (snd (snd st)))
           (for_loopM (recursive_body_ref c x s) ks (x0, x1, result))"
  by (rule keeps_for_loop [OF keeps_recursive_body]) (simp_all add: assms)

lemma keeps_evaluate_recursive: "keeps n (is_new n) (evaluate_recursive_ref x s)"
  unfolding evaluate_recursive_ref_def
proof (rule keeps_bind [OF keeps_get_coefficients])
  fix c0
  show "keeps n (is_new n)
     (case view_shape c0 of
        [] \<Rightarrow> raiseM IndexError
      | K # _ \<Rightarrow>
          let c = reshape_trailing_ref c0 (length (view_shape x)) in
          bindM (fresh1 ones_like x) (\<lambda>x0.
          bindM (getitem_ref c 0) (\<lambda>c_0.
          bindM (fresh2 dot (Arr x0) s) (\<lambda>t.
          bindM (fresh2 multiply (Arr c_0) (Arr t)) (\<lambda>result.
          bindM (if K > 1
                 then bindM (getitem_ref c 1) (\<lambda>c_1.
                      bindM (fresh2 multiply (Arr c_1) (Arr x)) (\<lambda>inc.
                      iadd_ref result inc))
                 else returnM result) (\<lambda>result.
          bindM (for_loopM (recursive_body_ref c x s) [2..<K] (x0, x, result)) (\<lambda>st.
          case st of (_, _, result) \<Rightarrow> returnM result)))))))"
  proof (cases "view_shape c0")
    case Nil
    then show ?thesis by (simp add: keeps_raise)
  next
    case (Cons K sh)
    let ?c = "reshape_trailing_ref c0 (length (view_shape x))"
    have second: "keeps n (is_new n)
        (if K > 1
         then bindM (getitem_ref ?c 1) (\<lambda>c_1.
              bindM (fresh2 multiply (Arr c_1) (Arr x)) (\<lambda>inc.
              iadd_ref result inc))
         else returnM result)" if "is_new n result" for result
    proof (cases "K > 1")
      case True
      have "keeps n (is_new n) (bindM (getitem_ref ?c 1) (\<lambda>c_1.
              bindM (fresh2 multiply (Arr c_1) (Arr x)) (\<lambda>inc.
              iadd_ref result inc)))"
        apply (rule keeps_bind [OF keeps_getitem])
        apply (rule keeps_bind [OF keeps_fresh2])
        apply (rule keeps_iadd [OF that])
        done
      with True show ?thesis by simp
    next
      case False
      with that show ?thesis by (simp add: keeps_return)
    qed
    have last: "keeps n (is_new n) (case st of (_, _, result) \<Rightarrow> returnM result)"
      if "is_new n (snd (snd st))" for st :: "array_ref \<times> array_ref \<times> array_ref"
      using that by (cases st) (simp add: keeps_return)
    have "keeps n (is_new n)
          (bindM (fresh1 ones_like x) (\<lambda>x0.
          bindM (getitem_ref ?c 0) (\<lambda>c_0.
          bindM (fresh2 dot (Arr x0) s) (\<lambda>t.
          bindM (fresh2 multiply (Arr c_0) (Arr t)) (\<lambda>result.
          bindM (if K > 1
                 then bindM (getitem_ref ?c 1) (\<lambda>c_1.
                      bindM (fresh2 multiply (Arr c_1) (Arr x)) (\<lambda>inc.
                      iadd_ref result inc))
                 else returnM result) (\<lambda>result.
          bindM (for_loopM (recursive_body_ref ?c x s) [2..<K] (x0, x, result)) (\<lambda>st.
          case st of (_, _, result) \<Rightarrow> returnM result)))))))"
      apply (rule keeps_bind [OF keeps_fresh1])
      apply (rule keeps_bind [OF keeps_getitem])
      apply (rule keeps_bind [OF keeps_fresh2])
      apply (rule keeps_bind [OF keeps_fresh2])
      apply (rule keeps_bind [OF second])
       apply assumption
      apply (rule keeps_bind [OF keeps_recursive_loop])
       apply assumption
      apply (erule last)
      done
    then show ?thesis by (simp only: Cons list.case Let_def)
  qed
qed

lemma keeps_dispatch: "keeps n (is_new n) (dispatch_ref method x)"
  unfolding dispatch_ref_def
  by (simp add: keeps_evaluate_direct keeps_evaluate_recursive keeps_raise)

lemma keeps_evaluate: "keeps n (is_new n) (evaluate_ref x method)"
  unfolding evaluate_ref_def
  apply (rule keeps_bind [OF keeps_read [where Q = "\<lambda>v. True"]])
   apply simp
  apply (rule keeps_bind [where Q = "\<lambda>u. True"])
   apply (simp add: keeps_return)
   apply (intro impI)
   apply (rule keeps_bind [OF keeps_get_lmax])
   apply (rule keeps_warn)
  apply (rule keeps_bind [OF keeps_fresh2])
  apply (rule keeps_bind [OF keeps_get_lmax])
  apply (rule keeps_bind [OF keeps_fresh2])
  apply (rule keeps_bind [OF keeps_fresh2])
  apply (rule keeps_dispatch)
  done

lemma keeps_filter: "keeps n (is_new n) (filter_ref s method)"
  unfolding filter_ref_def filter_body_ref_def by (simp add: keeps_raise)

lemma perform_keeps:
  assumes "n \<le> length (memory w)"
  shows "this (perform call w) = this w \<and> n \<le> length (memory (perform call w))
       \<and> take n (memory (perform call w)) = take n (memory w)"
proof (cases call)
  case (Evaluate x m)
  obtain r w' where run: "evaluate_ref x m w = (r, w')" by (cases "evaluate_ref x m w")
  from keepsD(1-3) [OF keeps_evaluate assms run] Evaluate run show ?thesis by simp
next
  case (Filter s m)
  obtain r w' where run: "filter_ref s m w = (r, w')" by (cases "filter_ref s m w")
  from keepsD(1-3) [OF keeps_filter assms run] Filter run show ?thesis by simp
qed

lemma perform_all_keeps:
  assumes "n \<le> length (memory w)"
  shows "this (perform_all calls w) = this w \<and> n \<le> length (memory (perform_all calls w))
       \<and> take n (memory (perform_all calls w)) = take n (memory w)"
  using assms
proof (induction calls arbitrary: w)
  case Nil
  then show ?case by simp
next
  case (Cons call calls)
  from perform_keeps [OF Cons.prems, where call = call]
  have a: "this (perform call w) = this w" and b: "n \<le> length (memory (perform call w))"
    and c: "take n (memory (perform call w)) = take n (memory w)" by simp_all
  from Cons.IH [OF b] a c show ?case by simp
qed

lemma deref_take:
  assumes "base c < n" "n \<le> length mem" "n \<le> length mem'" "take n mem' = take n mem"
  shows "deref mem' c = deref mem c"
proof -
  have "mem' ! base c = take n mem' ! base c" using assms(1) by simp
  also have "\<dots> = take n mem ! base c" by (simp only: assms(4))
  also have "\<dots> = mem ! base c" using assms(1) by simp
  finally show ?thesis using assms(1-3) by (simp add: deref_def buffer_def)
qed

section \<open>Properties\<close>

text \<open>The definitions that evaluate a call on given arrays.\<close>

lemmas np_defs = evaluate_direct_def evaluate_recursive_def direct_body_def recursive_body_def
  get_coefficients_def bindE_def array1_def array2_def scalar_def reshape_trailing_def ndim_def
  getitem_def dot_def multiply_def subtract_def divide_def binop_def iadd_def
  broadcast_shapes_def broadcast_to_def np_zeros_def ones_like_def np_cos_def np_arccos_def
  map_array_def inner_def column_def fl_mul_def fl_add_def fl_sub_def fl_min_def fl_max_def
  np_min_def np_max_def evaluate_def outside_domain_def rescale_def dispatch_def
  filter_body_def filter_entry_def filter_rescale_def identity_def init_def

subsection \<open>The recursive evaluator and the signal\<close>

text \<open>
  C1. The claim: for \<open>K \<ge> 3\<close> rows, an operator \<open>x\<close> and a signal \<open>s\<close>,
  \<open>_evaluate_recursive\<close> carries the recurrence on the applied vectors, \<open>T\<^sub>0 s = s\<close>,
  \<open>T\<^sub>1 s = x s\<close>, \<open>T\<^sub>k s = 2 x (T\<^sub>k\<^sub>-\<^sub>1 s) - T\<^sub>k\<^sub>-\<^sub>2 s\<close>, and adds \<open>c\<^sub>k (T\<^sub>k s)\<close> to the result.
  The code starts from \<open>x0 = ones_like(x)\<close> and \<open>x1 = x\<close> and computes
  \<open>x2 = 2 * x.dot(s) * x1 - x0\<close>: the signal enters the first term and the factor
  \<open>x.dot(s)\<close> only. With the coefficients \<open>[[1], [1], [1]]\<close>, the 1 by 1 operator \<open>[[0]]\<close>
  and the signal \<open>[2]\<close> the recurrence of the claim gives \<open>2 + 0 - 2 = 0\<close> and the code
  returns 1; with the 2 by 2 identity and the signal \<open>[1, 2]\<close> the code raises
  \<open>ValueError\<close>, since \<open>result\<close> has the shape \<open>(1, 1, 2)\<close> and \<open>c[1] * x1\<close> the shape
  \<open>(1, 2, 2)\<close>.
\<close>

theorem recursive_state_not_applied_to_signal:
  "bindE (init \<lparr>lmax = 2\<rparr> (ArrayLike (array2 1 [[1], [1], [1]])) 30) (\<lambda>self.
     Inr (evaluate_recursive self \<lparr>shape = [1, 1], data = [Fin 0]\<rparr> (array1 [2]),
          evaluate_recursive self (identity 2) (array1 [1, 2])))
   = Inr (Inr \<lparr>shape = [1, 1, 1], data = [Fin 1]\<rparr>, Inl ValueError)"
  by code_simp

text \<open>
  C7. The claim: with one row \<open>_evaluate_recursive\<close> returns \<open>c\<^sub>0 s\<close> for every \<open>x\<close>
  (scalar array or operator) and \<open>s\<close>, with two rows \<open>c\<^sub>0 s + c\<^sub>1 (x s)\<close>. The code
  returns \<open>c[0] * ones_like(x).dot(s)\<close>, plus \<open>c[1] * x\<close> when there are two rows. With one
  row \<open>[[1]]\<close>, the 2 by 2 zero operator and the signal \<open>[1, 2]\<close> it returns \<open>[3, 3]\<close>
  (the sum of the signal at every vertex) where the claim has \<open>[1, 2]\<close>; with the rows
  \<open>[[1], [1]]\<close>, the point \<open>x = [1]\<close> and \<open>s = 2\<close> it returns \<open>2 + 1 = 3\<close> where the claim
  has \<open>2 + 1 * (1 * 2) = 4\<close>.
\<close>

theorem recursive_low_orders:
  "bindE (init \<lparr>lmax = 2\<rparr> (ArrayLike (array2 1 [[1]])) 0) (\<lambda>self.
     evaluate_recursive self \<lparr>shape = [2, 2], data = [Fin 0, Fin 0, Fin 0, Fin 0]\<rparr>
       (array1 [1, 2]))
   = Inr \<lparr>shape = [1, 1, 2], data = [Fin 3, Fin 3]\<rparr>
   \<and> bindE (init \<lparr>lmax = 2\<rparr> (ArrayLike (array2 1 [[1], [1]])) 1) (\<lambda>self.
     evaluate_recursive self (array1 [1]) (scalar 2))
   = Inr \<lparr>shape = [1, 1], data = [Fin 3]\<rparr>"
  by code_simp

subsection \<open>Direct and recursive evaluation at scalar points\<close>




subsection \<open>Points outside the domain\<close>




subsection \<open>The operator-domain entry point\<close>

text \<open>
  C5. For every signal and every method argument, \<open>_filter\<close> raises a \<open>NameError\<close>
  (its subclass \<open>UnboundLocalError\<close>) and returns nothing: its first statement reads the
  local variable \<open>L\<close>, which nothing has assigned yet.
\<close>

theorem filter_always_raises_NameError:
  "filter_entry self s method u = Inl UnboundLocalError \<and> is_NameError UnboundLocalError"
  by (simp add: filter_entry_def filter_body_def)

text \<open>
  C3. The claim: \<open>_filter\<close> dispatches to the recursive evaluator, whatever the method.
  The code raises \<open>UnboundLocalError\<close> before it calls an evaluator, also for the method
  \<open>recursive\<close>, and the evaluator its last line names is \<open>_evaluate_direct\<close>: were \<open>L\<close>
  bound to \<open>[[2]]\<close>, the body would return what \<open>_evaluate_direct\<close> returns on the
  rescaled operator (a \<open>ValueError\<close>, from adding a 3-d term to the 2-d \<open>result\<close>), which is
  not what \<open>_evaluate_recursive\<close> returns there.
\<close>

theorem filter_names_direct_evaluator:
  "bindE (init \<lparr>lmax = 2\<rparr> (ArrayLike (array2 1 [[1], [1]])) 30) (\<lambda>self.
     Inr (filter_entry self (array1 [1]) (Some ''recursive'') (),
          filter_body (Some \<lparr>shape = [1, 1], data = [Fin 2]\<rparr>) self (array1 [1])
            (Some ''recursive''),
          evaluate_direct self \<lparr>shape = [1, 1], data = [Fin 2]\<rparr> (array1 [1]),
          evaluate_recursive self \<lparr>shape = [1, 1], data = [Fin 2]\<rparr> (array1 [1])))
   = Inr (Inl UnboundLocalError, Inl ValueError, Inl ValueError,
          Inr \<lparr>shape = [1, 1, 1], data = [Fin 3]\<rparr>)"
  by (simp add: np_defs eval_nat_numeral upt_rec)

text \<open>
  C4. The claim: \<open>_filter\<close> rescales the operator to \<open>(2 / lmax) * L - I\<close>. The code raises
  before line 71, and line 71 computes \<open>2 * L - lmax / 2 - I\<close>: for \<open>L = [[2]]\<close> and
  \<open>lmax = 2\<close> that is \<open>[[2]]\<close>, where \<open>(2 / lmax) * L - I\<close> is \<open>[[1]]\<close>, the value the
  rescaling of \<open>_evaluate\<close> (line 60, \<open>2 * x / lmax - 1\<close>) gives on the same numbers.
\<close>

theorem filter_rescale_formula:
  "bindE (init \<lparr>lmax = 2\<rparr> (ArrayLike (array2 1 [[1], [1]])) 30) (\<lambda>self.
     Inr (filter_entry self (array1 [1]) None (),
          filter_rescale self \<lparr>shape = [1, 1], data = [Fin 2]\<rparr> (identity 1),
          rescale self \<lparr>shape = [1, 1], data = [Fin 2]\<rparr>))
   = Inr (Inl UnboundLocalError,
          Inr \<lparr>shape = [1, 1], data = [Fin 2]\<rparr>,
          Inr \<lparr>shape = [1, 1], data = [Fin 1]\<rparr>)"
  by (simp add: np_defs eval_nat_numeral upt_rec)

subsection \<open>Errors of the constructor and of the recursive evaluator\<close>

text \<open>
  C8, the claim as stated: construction fails when \<open>lmax \<le> 0\<close>. With \<open>lmax = -1\<close> and the
  coefficient array \<open>[[1]]\<close> the constructor returns the object.
\<close>

theorem init_nonpositive_lmax_counterexample:
  "init \<lparr>lmax = - 1\<rparr> (ArrayLike (array2 1 [[1]])) 30
   = Inr \<lparr>G = \<lparr>lmax = - 1\<rparr>, order = 30, coefficients = Some (array2 1 [[1]]), Nf = 1\<rparr>"
  by (simp add: init_def array2_def)

text \<open>
  C8, amended. The constructor checks neither \<open>lmax\<close> nor a declared number of filters
  (it takes none: \<open>Nf\<close> is read off the array). Given a coefficient array with at least
  two dimensions it returns the object, for every graph and order, with the array stored
  as it is and \<open>Nf\<close> its second dimension; given an array with fewer dimensions it raises
  \<open>IndexError\<close>, at construction.
\<close>

theorem init_never_validates:
  "init g (ArrayLike arr) ord =
     (if 2 \<le> ndim arr
      then Inr \<lparr>G = g, order = ord, coefficients = Some arr, Nf = shape arr ! 1\<rparr>
      else Inl IndexError)"
  by (auto simp: init_def ndim_def split: list.splits)

text \<open>
  C9, the claim as stated: an order that does not fit the number of rows is rejected.
  With \<open>order = 30\<close> and a single row \<open>_evaluate_recursive\<close> returns a result.
\<close>

theorem recursive_order_mismatch_counterexample:
  "bindE (init \<lparr>lmax = 2\<rparr> (ArrayLike (array2 1 [[1]])) 30) (\<lambda>self.
     evaluate_recursive self (array1 [0]) (scalar 1))
   = Inr \<lparr>shape = [1, 1], data = [Fin 1]\<rparr>"
  by code_simp

text \<open>
  C9, amended. When the coefficient array has no row (or no dimension),
  \<open>_evaluate_recursive\<close> raises \<open>IndexError\<close>; and it never reads the attribute \<open>order\<close>:
  what it returns or raises is the same for every value of \<open>order\<close>.
\<close>

theorem recursive_zero_rows_IndexError:
  assumes "coefficients self = Some c"
  shows "(shape c = [] \<or> hd (shape c) = 0 \<longrightarrow> evaluate_recursive self x s = Inl IndexError)
       \<and> evaluate_recursive (self\<lparr>order := ord\<rparr>) x s = evaluate_recursive self x s"
  using assms
  by (auto simp: evaluate_recursive_def get_coefficients_def bindE_def getitem_def
      reshape_trailing_def split: list.splits)

theorem recursive_zero_rows_IndexError_witness:
  "evaluate_recursive
     \<lparr>G = \<lparr>lmax = 2\<rparr>, order = 30, coefficients = Some \<lparr>shape = [0, 1], data = []\<rparr>, Nf = 1\<rparr>
     (array1 [0]) (scalar 1) = Inl IndexError
   \<and> evaluate_recursive
     \<lparr>G = \<lparr>lmax = 2\<rparr>, order = 7, coefficients = Some \<lparr>shape = [0, 1], data = []\<rparr>, Nf = 1\<rparr>
     (array1 [0]) (scalar 1) = Inl IndexError"
  using recursive_zero_rows_IndexError
    [of "\<lparr>G = \<lparr>lmax = 2\<rparr>, order = 30, coefficients = Some \<lparr>shape = [0, 1], data = []\<rparr>,
          Nf = 1\<rparr>"
        "\<lparr>shape = [0, 1], data = []\<rparr>" "array1 [0]" "scalar 1" 7]
  by simp

subsection \<open>The object after a sequence of calls\<close>

text \<open>
  C10. Let the object's coefficient array be an array in memory. After any sequence of
  calls of \<open>_evaluate\<close> and \<open>_filter\<close>, with any arguments (also arguments that share
  memory with the coefficients) and whether or not a call raises, the object's attributes
  (the graph, \<open>order\<close>, the reference \<open>_coefficients\<close>, \<open>Nf\<close>) are what they were and the
  coefficient array has the value it had; indeed no buffer that existed before the calls
  has changed: the only statement that writes into an array, \<open>result += ...\<close>, writes
  into an array the same call has created. This holds on every path, whatever numbers
  the operations compute.
\<close>

theorem calls_never_mutate_coefficients:
  assumes "coefficients (this w) = Some c" and "base c < length (memory w)"
  shows "this (perform_all calls w) = this w
       \<and> deref (memory (perform_all calls w)) c = deref (memory w) c
       \<and> take (length (memory w)) (memory (perform_all calls w)) = memory w"
proof -
  from perform_all_keeps [OF order_refl, where w = w and calls = calls]
  have a: "this (perform_all calls w) = this w"
    and b: "length (memory w) \<le> length (memory (perform_all calls w))"
    and c: "take (length (memory w)) (memory (perform_all calls w)) = take (length (memory w)) (memory w)"
    by simp_all
  from deref_take [OF assms(2) order_refl b c] a c show ?thesis by simp
qed

theorem calls_never_mutate_coefficients_witness:
  "this (perform_all
       [Evaluate \<lparr>base = 1, offset = 0, view_shape = [2]\<rparr> None,
        Filter (Num 1) (Some ''recursive''),
        Evaluate \<lparr>base = 0, offset = 0, view_shape = [3]\<rparr> (Some ''direct'')]
       \<lparr>this = \<lparr>G = \<lparr>lmax = 2\<rparr>, order = 2,
                 coefficients = Some \<lparr>base = 0, offset = 0, view_shape = [3, 1]\<rparr>, Nf = 1\<rparr>,
        memory = [[Fin 1, Fin 1, Fin 1], [Fin 0, Fin 2]], logged = []\<rparr>)
   = \<lparr>G = \<lparr>lmax = 2\<rparr>, order = 2,
      coefficients = Some \<lparr>base = 0, offset = 0, view_shape = [3, 1]\<rparr>, Nf = 1\<rparr>
   \<and> deref (memory (perform_all
       [Evaluate \<lparr>base = 1, offset = 0, view_shape = [2]\<rparr> None,
        Filter (Num 1) (Some ''recursive''),
        Evaluate \<lparr>base = 0, offset = 0, view_shape = [3]\<rparr> (Some ''direct'')]
       \<lparr>this = \<lparr>G = \<lparr>lmax = 2\<rparr>, order = 2,
                 coefficients = Some \<lparr>base = 0, offset = 0, view_shape = [3, 1]\<rparr>, Nf = 1\<rparr>,
        memory = [[Fin 1, Fin 1, Fin 1], [Fin 0, Fin 2]], logged = []\<rparr>))
       \<lparr>base = 0, offset = 0, view_shape = [3, 1]\<rparr>
     = \<lparr>shape = [3, 1], data = [Fin 1, Fin 1, Fin 1]\<rparr>"
  using calls_never_mutate_coefficients
    [of "\<lparr>this = \<lparr>G = \<lparr>lmax = 2\<rparr>, order = 2,
                 coefficients = Some \<lparr>base = 0, offset = 0, view_shape = [3, 1]\<rparr>, Nf = 1\<rparr>,
        memory = [[Fin 1, Fin 1, Fin 1], [Fin 0, Fin 2]], logged = []\<rparr>"
        "\<lparr>base = 0, offset = 0, view_shape = [3, 1]\<rparr>"
        "[Evaluate \<lparr>base = 1, offset = 0, view_shape = [2]\<rparr> None,
        Filter (Num 1) (Some ''recursive''),
        Evaluate \<lparr>base = 0, offset = 0, view_shape = [3]\<rparr> (Some ''direct'')]"]
  by (simp add: deref_def buffer_def del: perform_all.simps perform.simps)

end
